theory Spec2Isabelle
  imports Complex_Main
begin

section \<open>The BGE-large embedding service (embedding-service/server.py)\<close>

text \<open>
  The service is three Flask handlers around one call, \<^verbatim>\<open>model.encode\<close>, of the
  sentence-transformers library. The handlers are embedded as HOL functions of what they
  read: the value of \<^verbatim>\<open>request.json\<close> and the loaded model. What they do besides
  returning a response, calling \<^verbatim>\<open>model.encode\<close>, is returned as the list of the calls made.
\<close>

subsection \<open>Values\<close>

text \<open>
  A Python float. \<open>Finite 0\<close> is \<^verbatim>\<open>0.0\<close>, \<open>NegZero\<close> is \<^verbatim>\<open>-0.0\<close>; the handlers only test
  floats for truth and hand them on.
\<close>

datatype pyfloat = Finite real | NegZero | PosInf | NegInf | NaN

text \<open>
  The Python values that \<^verbatim>\<open>request.json\<close> yields and that \<^verbatim>\<open>jsonify\<close> serialises:
  \<^verbatim>\<open>None\<close>, \<^verbatim>\<open>bool\<close>, \<^verbatim>\<open>int\<close>, \<^verbatim>\<open>float\<close>, \<^verbatim>\<open>str\<close>, \<^verbatim>\<open>list\<close> and \<^verbatim>\<open>dict\<close> (its items in
  insertion order).
\<close>

datatype json =
    JNull
  | JBool bool
  | JInt int
  | JFloat pyfloat
  | JStr string
  | JArr "json list"
  | JObj "(string \<times> json) list"

text \<open>A numpy array: a 0-dimensional one holds a scalar, any other is a sequence of sub-arrays.\<close>

datatype ndarray = Scalar pyfloat | Arr "ndarray list"

text \<open>
  An exception of class \<^verbatim>\<open>Exception\<close>, the ones \<^verbatim>\<open>except Exception\<close> catches, with its
  class name and the text that \<^verbatim>\<open>str(e)\<close> gives.
\<close>

datatype exn = Exn (cls: string) (str: string)

definition quoted :: "string \<Rightarrow> string" where
  "quoted s = [CHR 0x27] @ s @ [CHR 0x27]"

text \<open>The name Python prints for the type of a value.\<close>

fun type_name :: "json \<Rightarrow> string" where
  "type_name JNull = ''NoneType''"
| "type_name (JBool b) = ''bool''"
| "type_name (JInt i) = ''int''"
| "type_name (JFloat x) = ''float''"
| "type_name (JStr s) = ''str''"
| "type_name (JArr xs) = ''list''"
| "type_name (JObj kvs) = ''dict''"

text \<open>Truth value testing: \<^verbatim>\<open>bool(v)\<close>, as \<^verbatim>\<open>not v\<close> uses it.\<close>

fun float_truthy :: "pyfloat \<Rightarrow> bool" where
  "float_truthy (Finite r) = (r \<noteq> 0)"
| "float_truthy NegZero = False"
| "float_truthy PosInf = True"
| "float_truthy NegInf = True"
| "float_truthy NaN = True"

fun truthy :: "json \<Rightarrow> bool" where
  "truthy JNull = False"
| "truthy (JBool b) = b"
| "truthy (JInt i) = (i \<noteq> 0)"
| "truthy (JFloat x) = float_truthy x"
| "truthy (JStr s) = (s \<noteq> [])"
| "truthy (JArr xs) = (xs \<noteq> [])"
| "truthy (JObj kvs) = (kvs \<noteq> [])"

fun isinstance_str :: "json \<Rightarrow> bool" where
  "isinstance_str (JStr s) = True"
| "isinstance_str v = False"

fun isinstance_list :: "json \<Rightarrow> bool" where
  "isinstance_list (JArr xs) = True"
| "isinstance_list v = False"

text \<open>
  \<^verbatim>\<open>data.get(key, default)\<close>. Only a dict has the method: on any other value the attribute
  lookup raises AttributeError.
\<close>

fun py_get :: "json \<Rightarrow> string \<Rightarrow> json \<Rightarrow> exn + json" where
  "py_get (JObj kvs) key dflt = Inr (case map_of kvs key of None \<Rightarrow> dflt | Some v \<Rightarrow> v)"
| "py_get v key dflt =
     Inl (Exn ''AttributeError''
            (quoted (type_name v) @ '' object has no attribute '' @ quoted ''get''))"

text \<open>\<^verbatim>\<open>len(v)\<close> on a Python value.\<close>

fun py_len :: "json \<Rightarrow> exn + nat" where
  "py_len (JStr s) = Inr (length s)"
| "py_len (JArr xs) = Inr (length xs)"
| "py_len (JObj kvs) = Inr (length kvs)"
| "py_len v =
     Inl (Exn ''TypeError'' (''object of type '' @ quoted (type_name v) @ '' has no len()''))"

text \<open>\<^verbatim>\<open>ndarray.tolist()\<close>: nested lists, and a bare scalar for a 0-dimensional array.\<close>

fun tolist :: "ndarray \<Rightarrow> json" where
  "tolist (Scalar x) = JFloat x"
| "tolist (Arr xs) = JArr (map tolist xs)"

text \<open>\<^verbatim>\<open>len(a)\<close> on an ndarray: the size of the first axis; a 0-dimensional array has none.\<close>

fun nd_len :: "ndarray \<Rightarrow> exn + nat" where
  "nd_len (Scalar x) = Inl (Exn ''TypeError'' ''len() of unsized object'')"
| "nd_len (Arr xs) = Inr (length xs)"

subsection \<open>The model and the request\<close>

text \<open>
  One call of \<^verbatim>\<open>model.encode\<close>, with the arguments the handlers pass. \<open>batch_size\<close> is
  \<open>None\<close> when the keyword is not given.
\<close>

record encode_call =
  sentences :: json
  batch_size :: "json option"
  normalize_embeddings :: json
  show_progress_bar :: bool

text \<open>
  The loaded SentenceTransformer is outside the repository: \<^verbatim>\<open>model.encode\<close> is a parameter,
  a function from the call to the array it returns or the exception it raises.
\<close>

type_synonym model = "encode_call \<Rightarrow> exn + ndarray"

text \<open>
  What evaluating \<^verbatim>\<open>request.json\<close> gives: the parsed body, or the exception Flask raises
  (a body that is not JSON, a content type that is not JSON). Flask versions that return
  \<^verbatim>\<open>None\<close> instead of raising give \<open>Inr JNull\<close>, as the body \<^verbatim>\<open>null\<close> does.
\<close>

type_synonym request = "exn + json"

record response =
  status :: nat
  body :: json

text \<open>\<^verbatim>\<open>return jsonify(d)\<close> answers 200; \<^verbatim>\<open>return jsonify(d), code\<close> answers \<open>code\<close>.\<close>

definition jsonify :: "json \<Rightarrow> response" where
  "jsonify d = \<lparr>status = 200, body = d\<rparr>"

definition jsonify_code :: "json \<Rightarrow> nat \<Rightarrow> response" where
  "jsonify_code d code = \<lparr>status = code, body = d\<rparr>"

text \<open>The handler of \<^verbatim>\<open>except Exception as e\<close>, the same in both POST handlers.\<close>

definition on_exception :: "exn \<Rightarrow> response" where
  "on_exception e = jsonify_code (JObj [(''error'', JStr (str e))]) 500"

subsection \<open>The handlers\<close>

text \<open>\<^verbatim>\<open>health()\<close>: reads neither the request nor the model.\<close>

definition health :: "model \<Rightarrow> request \<Rightarrow> response \<times> encode_call list" where
  "health enc req =
     (jsonify (JObj [(''status'', JStr ''healthy''),
                     (''model'', JStr ''BGE-large-en-v1.5''),
                     (''dimensions'', JInt 1024)]), [])"

text \<open>
  The body of the \<^verbatim>\<open>try\<close> block of \<^verbatim>\<open>embed()\<close>: the response it returns or the exception that
  leaves it, and the calls of \<^verbatim>\<open>model.encode\<close> made on the way.
\<close>

definition embed_try :: "model \<Rightarrow> request \<Rightarrow> (exn + response) \<times> encode_call list" where
  "embed_try enc req =
     (case req of
        Inl e \<Rightarrow> (Inl e, [])
      | Inr data \<Rightarrow>
     (case py_get data ''text'' JNull of
        Inl e \<Rightarrow> (Inl e, [])
      | Inr text0 \<Rightarrow>
     (case py_get data ''normalize'' (JBool True) of
        Inl e \<Rightarrow> (Inl e, [])
      | Inr normalize' \<Rightarrow>
        if \<not> truthy text0
        then (Inr (jsonify_code (JObj [(''error'', JStr ''Missing 'text' field'')]) 400), [])
        else
          let text = (if isinstance_str text0 then JArr [text0] else text0);
              call = \<lparr>sentences = text, batch_size = None,
                      normalize_embeddings = normalize', show_progress_bar = False\<rparr>
          in (case enc call of
                Inl e \<Rightarrow> (Inl e, [call])
              | Inr embeddings \<Rightarrow>
                  let embeddings_list = tolist embeddings
                  in (case py_len embeddings_list of
                        Inl e \<Rightarrow> (Inl e, [call])
                      | Inr n \<Rightarrow>
                          (Inr (jsonify (JObj [(''embeddings'', embeddings_list),
                                               (''dimensions'', JInt 1024),
                                               (''count'', JInt (int n))])),
                           [call]))))))"

definition embed :: "model \<Rightarrow> request \<Rightarrow> response \<times> encode_call list" where
  "embed enc req =
     (case embed_try enc req of
        (Inr r, calls) \<Rightarrow> (r, calls)
      | (Inl e, calls) \<Rightarrow> (on_exception e, calls))"

text \<open>The body of the \<^verbatim>\<open>try\<close> block of \<^verbatim>\<open>embed_batch()\<close>.\<close>

definition embed_batch_try :: "model \<Rightarrow> request \<Rightarrow> (exn + response) \<times> encode_call list" where
  "embed_batch_try enc req =
     (case req of
        Inl e \<Rightarrow> (Inl e, [])
      | Inr data \<Rightarrow>
     (case py_get data ''texts'' JNull of
        Inl e \<Rightarrow> (Inl e, [])
      | Inr texts \<Rightarrow>
     (case py_get data ''batch_size'' (JInt 32) of
        Inl e \<Rightarrow> (Inl e, [])
      | Inr bs \<Rightarrow>
        if \<not> truthy texts \<or> \<not> isinstance_list texts
        then (Inr (jsonify_code
                     (JObj [(''error'', JStr ''Missing or invalid 'texts' field'')]) 400), [])
        else
          let call = \<lparr>sentences = texts, batch_size = Some bs,
                      normalize_embeddings = JBool True, show_progress_bar = False\<rparr>
          in (case enc call of
                Inl e \<Rightarrow> (Inl e, [call])
              | Inr embeddings \<Rightarrow>
                  (case nd_len embeddings of
                     Inl e \<Rightarrow> (Inl e, [call])
                   | Inr n \<Rightarrow>
                       (Inr (jsonify (JObj [(''embeddings'', tolist embeddings),
                                            (''dimensions'', JInt 1024),
                                            (''count'', JInt (int n))])),
                        [call]))))))"

definition embed_batch :: "model \<Rightarrow> request \<Rightarrow> response \<times> encode_call list" where
  "embed_batch enc req =
     (case embed_batch_try enc req of
        (Inr r, calls) \<Rightarrow> (r, calls)
      | (Inl e, calls) \<Rightarrow> (on_exception e, calls))"

subsection \<open>The vocabulary of the properties\<close>

text \<open>The value stored under a key of a response body.\<close>

fun field :: "json \<Rightarrow> string \<Rightarrow> json option" where
  "field (JObj kvs) k = map_of kvs k"
| "field v k = None"

fun is_scalar :: "ndarray \<Rightarrow> bool" where
  "is_scalar (Scalar x) = True"
| "is_scalar (Arr xs) = False"

text \<open>A one-dimensional array of \<open>k\<close> floats.\<close>

fun is_vector :: "nat \<Rightarrow> ndarray \<Rightarrow> bool" where
  "is_vector k (Arr xs) = (length xs = k \<and> list_all is_scalar xs)"
| "is_vector k (Scalar x) = False"

text \<open>A two-dimensional array with one row of 1024 floats for each of the texts \<open>ts\<close>.\<close>

fun one_vector_per_text :: "json list \<Rightarrow> ndarray \<Rightarrow> bool" where
  "one_vector_per_text ts (Arr rows) =
     (length rows = length ts \<and> list_all (is_vector 1024) rows)"
| "one_vector_per_text ts (Scalar x) = False"

text \<open>
  Modelled from the spec: the output guarantee of the Model Wrapper, whose code
  (\<^verbatim>\<open>SentenceTransformer.encode\<close>) is not part of the repository. Spec 4.1: ``one
  fixed-length (1024) float vector per input string''. It constrains the calls that return,
  on a sequence of texts; a call may still raise.
\<close>

definition encode_contract :: "model \<Rightarrow> bool" where
  "encode_contract enc =
     (\<forall>c ts r. sentences c = JArr ts \<and> enc c = Inr r \<longrightarrow> one_vector_per_text ts r)"

text \<open>
  Modelled from the spec: the Model Wrapper, whose code is not part of the repository, takes
  \<open>batch_size\<close> as a chunking hint. Spec 1 and 4.4: the model is ``a black-box function
  \<^verbatim>\<open>encode(texts, normalize) -> vectors\<close>'', and \<open>batch_size\<close> ``controls internal chunking hint
  passed to the Model Wrapper''. So a call gives the same under the two sizes \<open>b1\<close> and
  \<open>b2\<close>, whatever its other arguments.
\<close>

definition batch_size_is_hint :: "model \<Rightarrow> json \<Rightarrow> json \<Rightarrow> bool" where
  "batch_size_is_hint enc b1 b2 =
     (\<forall>c. enc (c\<lparr>batch_size := Some b1\<rparr>) = enc (c\<lparr>batch_size := Some b2\<rparr>))"

fun is_float :: "json \<Rightarrow> bool" where
  "is_float (JFloat x) = True"
| "is_float v = False"

fun is_float_vector :: "nat \<Rightarrow> json \<Rightarrow> bool" where
  "is_float_vector k (JArr xs) = (length xs = k \<and> list_all is_float xs)"
| "is_float_vector k v = False"

text \<open>
  An EmbeddingResponse body for \<open>n\<close> texts: \<open>dimensions\<close> is 1024, \<open>count\<close> is \<open>n\<close>, and
  \<open>embeddings\<close> is a list of \<open>n\<close> lists of 1024 floats.
\<close>

definition embedding_response :: "nat \<Rightarrow> json \<Rightarrow> bool" where
  "embedding_response n b =
     (field b ''dimensions'' = Some (JInt 1024) \<and>
      field b ''count'' = Some (JInt (int n)) \<and>
      (case field b ''embeddings'' of
         Some (JArr embs) \<Rightarrow> length embs = n \<and> list_all (is_float_vector 1024) embs
       | _ \<Rightarrow> False))"

text \<open>An ErrorResponse body: the one field \<open>error\<close>, holding the message.\<close>

definition error_response :: "string \<Rightarrow> json" where
  "error_response msg = JObj [(''error'', JStr msg)]"

subsection \<open>Example models\<close>

text \<open>A model that embeds every text of a sequence as the first unit vector.\<close>

definition unit_vector :: ndarray where
  "unit_vector = Arr (Scalar (Finite 1) # replicate 1023 (Scalar (Finite 0)))"

definition example_model :: model where
  "example_model c =
     (case sentences c of
        JArr ts \<Rightarrow> Inr (Arr (map (\<lambda>t. unit_vector) ts))
      | v \<Rightarrow> Inl (Exn ''TypeError'' ''unsupported input''))"

text \<open>A model whose every call raises.\<close>

definition failing_model :: model where
  "failing_model c = Inl (Exn ''RuntimeError'' ''out of memory'')"

text \<open>A model that accepts only a positive integer as \<open>batch_size\<close> and raises on any other.\<close>

definition strict_model :: model where
  "strict_model c =
     (case batch_size c of
        None \<Rightarrow> example_model c
      | Some (JInt n) \<Rightarrow>
          if 0 < n then example_model c
          else Inl (Exn ''ValueError'' ''batch_size must be positive'')
      | Some v \<Rightarrow> Inl (Exn ''TypeError'' ''batch_size must be an integer''))"

section \<open>Properties\<close>

subsection \<open>The handlers, branch by branch\<close>

lemma embed_dict:
  "embed enc (Inr (JObj d)) =
     (let text0 = (case map_of d ''text'' of None \<Rightarrow> JNull | Some v \<Rightarrow> v);
          call = \<lparr>sentences = (if isinstance_str text0 then JArr [text0] else text0),
                  batch_size = None,
                  normalize_embeddings = (case map_of d ''normalize'' of None \<Rightarrow> JBool True | Some v \<Rightarrow> v),
                  show_progress_bar = False\<rparr>
      in if \<not> truthy text0
         then (\<lparr>status = 400, body = JObj [(''error'', JStr ''Missing 'text' field'')]\<rparr>, [])
         else (case enc call of
                 Inl e \<Rightarrow> (\<lparr>status = 500, body = JObj [(''error'', JStr (str e))]\<rparr>, [call])
               | Inr a \<Rightarrow>
                  (case py_len (tolist a) of
                     Inl e \<Rightarrow> (\<lparr>status = 500, body = JObj [(''error'', JStr (str e))]\<rparr>, [call])
                   | Inr n \<Rightarrow> (\<lparr>status = 200,
                                 body = JObj [(''embeddings'', tolist a), (''dimensions'', JInt 1024),
                                              (''count'', JInt (int n))]\<rparr>, [call]))))"
  by (simp add: embed_def embed_try_def Let_def on_exception_def jsonify_def jsonify_code_def
           split: sum.splits)

lemma embed_batch_dict:
  "embed_batch enc (Inr (JObj d)) =
     (let texts = (case map_of d ''texts'' of None \<Rightarrow> JNull | Some v \<Rightarrow> v);
          call = \<lparr>sentences = texts,
                  batch_size = Some (case map_of d ''batch_size'' of None \<Rightarrow> JInt 32 | Some v \<Rightarrow> v),
                  normalize_embeddings = JBool True,
                  show_progress_bar = False\<rparr>
      in if \<not> truthy texts \<or> \<not> isinstance_list texts
         then (\<lparr>status = 400, body = JObj [(''error'', JStr ''Missing or invalid 'texts' field'')]\<rparr>, [])
         else (case enc call of
                 Inl e \<Rightarrow> (\<lparr>status = 500, body = JObj [(''error'', JStr (str e))]\<rparr>, [call])
               | Inr a \<Rightarrow>
                  (case nd_len a of
                     Inl e \<Rightarrow> (\<lparr>status = 500, body = JObj [(''error'', JStr (str e))]\<rparr>, [call])
                   | Inr n \<Rightarrow> (\<lparr>status = 200,
                                 body = JObj [(''embeddings'', tolist a), (''dimensions'', JInt 1024),
                                              (''count'', JInt (int n))]\<rparr>, [call]))))"
  by (simp add: embed_batch_def embed_batch_try_def Let_def on_exception_def jsonify_def jsonify_code_def
           split: sum.splits)

lemma embed_raised:
  "embed enc (Inl e) = (\<lparr>status = 500, body = JObj [(''error'', JStr (str e))]\<rparr>, [])"
  by (simp add: embed_def embed_try_def on_exception_def jsonify_code_def)

lemma embed_batch_raised:
  "embed_batch enc (Inl e) = (\<lparr>status = 500, body = JObj [(''error'', JStr (str e))]\<rparr>, [])"
  by (simp add: embed_batch_def embed_batch_try_def on_exception_def jsonify_code_def)

lemma py_get_not_dict:
  "(\<forall>d. v \<noteq> JObj d) \<Longrightarrow>
   py_get v key dflt =
     Inl (Exn ''AttributeError'' (quoted (type_name v) @ '' object has no attribute '' @ quoted ''get''))"
  by (cases v) simp_all

lemma embed_not_dict:
  "(\<forall>d. v \<noteq> JObj d) \<Longrightarrow>
   embed enc (Inr v) =
     (\<lparr>status = 500,
       body = JObj [(''error'', JStr (quoted (type_name v) @ '' object has no attribute '' @ quoted ''get''))]\<rparr>, [])"
  by (simp add: embed_def embed_try_def on_exception_def jsonify_code_def py_get_not_dict)

lemma embed_batch_not_dict:
  "(\<forall>d. v \<noteq> JObj d) \<Longrightarrow>
   embed_batch enc (Inr v) =
     (\<lparr>status = 500,
       body = JObj [(''error'', JStr (quoted (type_name v) @ '' object has no attribute '' @ quoted ''get''))]\<rparr>, [])"
  by (simp add: embed_batch_def embed_batch_try_def on_exception_def jsonify_code_def py_get_not_dict)

lemma tolist_vector: "is_vector k a \<Longrightarrow> is_float_vector k (tolist a)"
proof (cases a)
  case (Scalar x)
  assume "is_vector k a"
  with Scalar show ?thesis by simp
next
  case (Arr xs)
  assume "is_vector k a"
  with Arr have len: "length xs = k" and sc: "list_all is_scalar xs" by simp_all
  have "is_float (tolist x)" if "x \<in> set xs" for x
  proof -
    from sc that have "is_scalar x" by (simp add: list_all_iff)
    then show ?thesis by (cases x) simp_all
  qed
  with len Arr show ?thesis by (simp add: list_all_iff)
qed

lemma tolist_matrix:
  assumes "one_vector_per_text ts a"
  shows "\<exists>embs. tolist a = JArr embs \<and> length embs = length ts \<and>
           list_all (is_float_vector 1024) embs \<and> py_len (tolist a) = Inr (length ts)
           \<and> nd_len a = Inr (length ts)"
proof (cases a)
  case (Scalar x)
  with assms show ?thesis by simp
next
  case (Arr rows)
  with assms have len: "length rows = length ts" and v: "list_all (is_vector 1024) rows"
    by simp_all
  from v have "list_all (is_float_vector 1024) (map tolist rows)"
    by (simp add: list_all_iff tolist_vector)
  with len Arr show ?thesis by simp
qed

text \<open>What a request that succeeds went through, and what it answers.\<close>

lemma py_len_tolist: "py_len (tolist a) = Inr n \<Longrightarrow> \<exists>xs. a = Arr xs \<and> n = length xs"
  by (cases a) auto

lemma nd_len_Inr: "nd_len a = Inr n \<Longrightarrow> \<exists>xs. a = Arr xs \<and> n = length xs"
  by (cases a) auto

lemma embed_200:
  assumes "status (fst (embed enc req)) = 200"
  shows "\<exists>d c xs. req = Inr (JObj d) \<and> snd (embed enc req) = [c] \<and> enc c = Inr (Arr xs) \<and>
           truthy (case map_of d ''text'' of None \<Rightarrow> JNull | Some v \<Rightarrow> v) \<and>
           sentences c = (let t = (case map_of d ''text'' of None \<Rightarrow> JNull | Some v \<Rightarrow> v)
                          in if isinstance_str t then JArr [t] else t) \<and>
           body (fst (embed enc req)) =
             JObj [(''embeddings'', JArr (map tolist xs)), (''dimensions'', JInt 1024),
                   (''count'', JInt (int (length xs)))]"
proof (cases req)
  case (Inl e)
  with assms show ?thesis by (simp add: embed_raised)
next
  case (Inr v)
  show ?thesis
  proof (cases "\<exists>d. v = JObj d")
    case False
    with assms Inr show ?thesis by (simp add: embed_not_dict)
  next
    case True
    then obtain d where v: "v = JObj d" by blast
    with assms Inr show ?thesis
      by (auto simp add: embed_dict Let_def split: if_splits sum.splits dest!: py_len_tolist)
  qed
qed

lemma embed_batch_200:
  assumes "status (fst (embed_batch enc req)) = 200"
  shows "\<exists>d c xs t ts. req = Inr (JObj d) \<and> snd (embed_batch enc req) = [c] \<and>
           enc c = Inr (Arr xs) \<and> map_of d ''texts'' = Some (JArr (t # ts)) \<and>
           sentences c = JArr (t # ts) \<and>
           body (fst (embed_batch enc req)) =
             JObj [(''embeddings'', JArr (map tolist xs)), (''dimensions'', JInt 1024),
                   (''count'', JInt (int (length xs)))]"
proof (cases req)
  case (Inl e)
  with assms show ?thesis by (simp add: embed_batch_raised)
next
  case (Inr v)
  show ?thesis
  proof (cases "\<exists>d. v = JObj d")
    case False
    with assms Inr show ?thesis by (simp add: embed_batch_not_dict)
  next
    case True
    then obtain d where v: "v = JObj d" by blast
    show ?thesis
    proof (cases "map_of d ''texts''")
      case None
      with assms Inr v show ?thesis by (simp add: embed_batch_dict)
    next
      case (Some x)
      show ?thesis
      proof (cases x)
        case (JArr ys)
        show ?thesis
        proof (cases ys)
          case Nil
          with assms Inr v Some JArr show ?thesis by (simp add: embed_batch_dict)
        next
          case (Cons t ts)
          with assms Inr v Some JArr show ?thesis
            by (auto simp add: embed_batch_dict Let_def split: sum.splits dest!: nd_len_Inr)
        qed
      qed (use assms Inr v Some in \<open>simp_all add: embed_batch_dict\<close>)
    qed
  qed
qed

text \<open>Every answer is an error without embeddings, or the whole result of one call.\<close>

lemma embed_all_or_nothing:
  "(\<exists>msg. body (fst (embed enc req)) = error_response msg \<and>
          (status (fst (embed enc req)) = 400 \<or> status (fst (embed enc req)) = 500))
   \<or> (status (fst (embed enc req)) = 200 \<and>
       (\<exists>c a. snd (embed enc req) = [c] \<and> enc c = Inr a \<and>
              field (body (fst (embed enc req))) ''embeddings'' = Some (tolist a)))"
proof (cases req)
  case (Inl e)
  then show ?thesis by (simp add: embed_raised error_response_def)
next
  case (Inr v)
  show ?thesis
  proof (cases "\<exists>d. v = JObj d")
    case False
    with Inr show ?thesis by (simp add: embed_not_dict error_response_def)
  next
    case True
    then obtain d where v: "v = JObj d" by blast
    define text0 where "text0 = (case map_of d ''text'' of None \<Rightarrow> JNull | Some v \<Rightarrow> v)"
    define call where "call = \<lparr>sentences = (if isinstance_str text0 then JArr [text0] else text0),
        batch_size = None,
        normalize_embeddings = (case map_of d ''normalize'' of None \<Rightarrow> JBool True | Some v \<Rightarrow> v),
        show_progress_bar = False\<rparr>"
    have unf: "embed enc (Inr (JObj d)) =
      (if \<not> truthy text0
       then (\<lparr>status = 400, body = JObj [(''error'', JStr ''Missing 'text' field'')]\<rparr>, [])
       else (case enc call of
               Inl e \<Rightarrow> (\<lparr>status = 500, body = JObj [(''error'', JStr (str e))]\<rparr>, [call])
             | Inr a \<Rightarrow>
                (case py_len (tolist a) of
                   Inl e \<Rightarrow> (\<lparr>status = 500, body = JObj [(''error'', JStr (str e))]\<rparr>, [call])
                 | Inr n \<Rightarrow> (\<lparr>status = 200,
                               body = JObj [(''embeddings'', tolist a), (''dimensions'', JInt 1024),
                                            (''count'', JInt (int n))]\<rparr>, [call]))))"
      unfolding text0_def call_def by (simp only: embed_dict Let_def)
    show ?thesis
    proof (cases "truthy text0")
      case False
      with Inr v show ?thesis
        by (simp add: unf error_response_def)
    next
      case t: True
      show ?thesis
      proof (cases "enc call")
        case (Inl e)
        with Inr v t show ?thesis
          by (simp add: unf error_response_def)
      next
        case a: (Inr a)
        show ?thesis
        proof (cases "py_len (tolist a)")
          case (Inl e)
          with Inr v t a show ?thesis
            by (simp add: unf error_response_def)
        next
          case n: (Inr n)
          with Inr v t a show ?thesis
            by (simp add: unf error_response_def)
        qed
      qed
    qed
  qed
qed

lemma embed_batch_all_or_nothing:
  "(\<exists>msg. body (fst (embed_batch enc req)) = error_response msg \<and>
          (status (fst (embed_batch enc req)) = 400 \<or> status (fst (embed_batch enc req)) = 500))
   \<or> (status (fst (embed_batch enc req)) = 200 \<and>
       (\<exists>c a. snd (embed_batch enc req) = [c] \<and> enc c = Inr a \<and>
              field (body (fst (embed_batch enc req))) ''embeddings'' = Some (tolist a)))"
proof (cases req)
  case (Inl e)
  then show ?thesis by (simp add: embed_batch_raised error_response_def)
next
  case (Inr v)
  show ?thesis
  proof (cases "\<exists>d. v = JObj d")
    case False
    with Inr show ?thesis by (simp add: embed_batch_not_dict error_response_def)
  next
    case True
    then obtain d where v: "v = JObj d" by blast
    define texts where "texts = (case map_of d ''texts'' of None \<Rightarrow> JNull | Some v \<Rightarrow> v)"
    define call where "call = \<lparr>sentences = texts,
        batch_size = Some (case map_of d ''batch_size'' of None \<Rightarrow> JInt 32 | Some v \<Rightarrow> v),
        normalize_embeddings = JBool True, show_progress_bar = False\<rparr>"
    have unf: "embed_batch enc (Inr (JObj d)) =
      (if \<not> truthy texts \<or> \<not> isinstance_list texts
       then (\<lparr>status = 400,
              body = JObj [(''error'', JStr ''Missing or invalid 'texts' field'')]\<rparr>, [])
       else (case enc call of
               Inl e \<Rightarrow> (\<lparr>status = 500, body = JObj [(''error'', JStr (str e))]\<rparr>, [call])
             | Inr a \<Rightarrow>
                (case nd_len a of
                   Inl e \<Rightarrow> (\<lparr>status = 500, body = JObj [(''error'', JStr (str e))]\<rparr>, [call])
                 | Inr n \<Rightarrow> (\<lparr>status = 200,
                               body = JObj [(''embeddings'', tolist a), (''dimensions'', JInt 1024),
                                            (''count'', JInt (int n))]\<rparr>, [call]))))"
      unfolding texts_def call_def by (simp only: embed_batch_dict Let_def)
    show ?thesis
    proof (cases "truthy texts \<and> isinstance_list texts")
      case False
      with Inr v show ?thesis
        by (auto simp add: unf error_response_def)
    next
      case t: True
      show ?thesis
      proof (cases "enc call")
        case (Inl e)
        with Inr v t show ?thesis
          by (simp add: unf error_response_def)
      next
        case a: (Inr a)
        show ?thesis
        proof (cases "nd_len a")
          case (Inl e)
          with Inr v t a show ?thesis
            by (simp add: unf error_response_def)
        next
          case n: (Inr n)
          with Inr v t a show ?thesis
            by (simp add: unf error_response_def)
        qed
      qed
    qed
  qed
qed

subsection \<open>The example models\<close>

lemma unit_vector_is_vector: "is_vector 1024 unit_vector"
  by (simp add: unit_vector_def list_all_iff)

lemma example_model_contract: "encode_contract example_model"
  by (auto simp add: encode_contract_def example_model_def list_all_iff unit_vector_is_vector
        split: json.splits)

lemma example_model_embed_hello:
  "status (fst (embed example_model (Inr (JObj [(''text'', JStr ''hello'')])))) = 200"
  by (simp add: embed_dict example_model_def unit_vector_def)

lemma example_model_embed_abc:
  "status (fst (embed example_model
     (Inr (JObj [(''text'', JArr [JStr ''a'', JStr ''b'', JStr ''c''])])))) = 200"
  by (simp add: embed_dict example_model_def unit_vector_def)

lemma example_model_batch_ab:
  "status (fst (embed_batch example_model
     (Inr (JObj [(''texts'', JArr [JStr ''a'', JStr ''b''])])))) = 200"
  by (simp add: embed_batch_dict example_model_def unit_vector_def)

subsection \<open>The claims\<close>

text \<open>
  C1: a request to \<^verbatim>\<open>/embed\<close> or \<^verbatim>\<open>/embed/batch\<close> that is answered 200 has \<open>count\<close> equal
  to the length of \<open>embeddings\<close> and \<open>dimensions\<close> equal to 1024. When moreover every call
  of \<^verbatim>\<open>encode\<close> that returns gives one 1024-entry vector per input text, \<open>count\<close> and the
  length of \<open>embeddings\<close> are the number of input texts (1 for a single string on
  \<^verbatim>\<open>/embed\<close>), and every vector of \<open>embeddings\<close> has 1024 entries.
\<close>

theorem embedding_response_shape:
  "(status (fst (embed enc req)) = 200 \<longrightarrow>
      (\<exists>embs. field (body (fst (embed enc req))) ''embeddings'' = Some (JArr embs) \<and>
         field (body (fst (embed enc req))) ''count'' = Some (JInt (int (length embs)))) \<and>
      field (body (fst (embed enc req))) ''dimensions'' = Some (JInt 1024))
   \<and> (status (fst (embed_batch enc req)) = 200 \<longrightarrow>
      (\<exists>embs. field (body (fst (embed_batch enc req))) ''embeddings'' = Some (JArr embs) \<and>
         field (body (fst (embed_batch enc req))) ''count'' = Some (JInt (int (length embs)))) \<and>
      field (body (fst (embed_batch enc req))) ''dimensions'' = Some (JInt 1024))
   \<and> (encode_contract enc \<and> status (fst (embed enc (Inr (JObj d)))) = 200 \<and>
        map_of d ''text'' = Some (JStr s) \<longrightarrow>
      embedding_response 1 (body (fst (embed enc (Inr (JObj d))))))
   \<and> (encode_contract enc \<and> status (fst (embed enc (Inr (JObj d)))) = 200 \<and>
        map_of d ''text'' = Some (JArr ts) \<longrightarrow>
      embedding_response (length ts) (body (fst (embed enc (Inr (JObj d))))))
   \<and> (encode_contract enc \<and> status (fst (embed_batch enc (Inr (JObj d)))) = 200 \<and>
        map_of d ''texts'' = Some (JArr ts) \<longrightarrow>
      embedding_response (length ts) (body (fst (embed_batch enc (Inr (JObj d))))))"
proof -
  have shape: "embedding_response (length us)
                 (JObj [(''embeddings'', JArr (map tolist xs)), (''dimensions'', JInt 1024),
                        (''count'', JInt (int (length xs)))])"
    if "encode_contract enc" "sentences c = JArr us" "enc c = Inr (Arr xs)" for c us xs
  proof -
    from that have "one_vector_per_text us (Arr xs)"
      unfolding encode_contract_def by blast
    from tolist_matrix [OF this] show ?thesis
      by (auto simp add: embedding_response_def)
  qed
  have g1: "status (fst (embed enc req)) = 200 \<longrightarrow>
      (\<exists>embs. field (body (fst (embed enc req))) ''embeddings'' = Some (JArr embs) \<and>
         field (body (fst (embed enc req))) ''count'' = Some (JInt (int (length embs)))) \<and>
      field (body (fst (embed enc req))) ''dimensions'' = Some (JInt 1024)"
  proof
    assume "status (fst (embed enc req)) = 200"
    from embed_200 [OF this] show "(\<exists>embs. field (body (fst (embed enc req))) ''embeddings'' = Some (JArr embs) \<and>
         field (body (fst (embed enc req))) ''count'' = Some (JInt (int (length embs)))) \<and>
      field (body (fst (embed enc req))) ''dimensions'' = Some (JInt 1024)"
      by auto
  qed
  have g2: "status (fst (embed_batch enc req)) = 200 \<longrightarrow>
      (\<exists>embs. field (body (fst (embed_batch enc req))) ''embeddings'' = Some (JArr embs) \<and>
         field (body (fst (embed_batch enc req))) ''count'' = Some (JInt (int (length embs)))) \<and>
      field (body (fst (embed_batch enc req))) ''dimensions'' = Some (JInt 1024)"
  proof
    assume "status (fst (embed_batch enc req)) = 200"
    from embed_batch_200 [OF this] show "(\<exists>embs. field (body (fst (embed_batch enc req))) ''embeddings'' = Some (JArr embs) \<and>
         field (body (fst (embed_batch enc req))) ''count'' = Some (JInt (int (length embs)))) \<and>
      field (body (fst (embed_batch enc req))) ''dimensions'' = Some (JInt 1024)"
      by auto
  qed
  have g3: "embedding_response 1 (body (fst (embed enc (Inr (JObj d)))))"
    if c: "encode_contract enc" and ok: "status (fst (embed enc (Inr (JObj d)))) = 200"
      and t: "map_of d ''text'' = Some (JStr s)"
  proof -
    from embed_200 [OF ok] t obtain c xs where
      "enc c = Inr (Arr xs)" "sentences c = JArr [JStr s]"
      "body (fst (embed enc (Inr (JObj d)))) =
         JObj [(''embeddings'', JArr (map tolist xs)), (''dimensions'', JInt 1024),
               (''count'', JInt (int (length xs)))]"
      by auto
    with shape [OF c, of c "[JStr s]" xs] show ?thesis by simp
  qed
  have g4: "embedding_response (length ts) (body (fst (embed enc (Inr (JObj d)))))"
    if c: "encode_contract enc" and ok: "status (fst (embed enc (Inr (JObj d)))) = 200"
      and t: "map_of d ''text'' = Some (JArr ts)"
  proof -
    from embed_200 [OF ok] t obtain c xs where
      "enc c = Inr (Arr xs)" "sentences c = JArr ts"
      "body (fst (embed enc (Inr (JObj d)))) =
         JObj [(''embeddings'', JArr (map tolist xs)), (''dimensions'', JInt 1024),
               (''count'', JInt (int (length xs)))]"
      by auto
    with shape [OF c, of c ts xs] show ?thesis by simp
  qed
  have g5: "embedding_response (length ts) (body (fst (embed_batch enc (Inr (JObj d)))))"
    if c: "encode_contract enc" and ok: "status (fst (embed_batch enc (Inr (JObj d)))) = 200"
      and t: "map_of d ''texts'' = Some (JArr ts)"
  proof -
    from embed_batch_200 [OF ok] t obtain c xs where
      "enc c = Inr (Arr xs)" "sentences c = JArr ts"
      "body (fst (embed_batch enc (Inr (JObj d)))) =
         JObj [(''embeddings'', JArr (map tolist xs)), (''dimensions'', JInt 1024),
               (''count'', JInt (int (length xs)))]"
      by auto
    with shape [OF c, of c ts xs] show ?thesis by simp
  qed
  from g1 g2 g3 g4 g5 show ?thesis by blast
qed

theorem embedding_response_shape_witness:
  "encode_contract example_model
   \<and> status (fst (embed example_model (Inr (JObj [(''text'', JStr ''hello'')])))) = 200
   \<and> embedding_response 1
        (body (fst (embed example_model (Inr (JObj [(''text'', JStr ''hello'')])))))
   \<and> status (fst (embed example_model
        (Inr (JObj [(''text'', JArr [JStr ''a'', JStr ''b'', JStr ''c''])])))) = 200
   \<and> embedding_response 3
        (body (fst (embed example_model
           (Inr (JObj [(''text'', JArr [JStr ''a'', JStr ''b'', JStr ''c''])])))))
   \<and> status (fst (embed_batch example_model
        (Inr (JObj [(''texts'', JArr [JStr ''a'', JStr ''b''])])))) = 200
   \<and> embedding_response 2
        (body (fst (embed_batch example_model
           (Inr (JObj [(''texts'', JArr [JStr ''a'', JStr ''b''])])))))"
proof -
  note c = example_model_contract
  have r1: "embedding_response 1
        (body (fst (embed example_model (Inr (JObj [(''text'', JStr ''hello'')])))))"
    using c example_model_embed_hello
      embedding_response_shape [where enc = example_model and s = "''hello''"
        and d = "[(''text'', JStr ''hello'')]" and ts = "[]"
        and req = "Inr (JObj [(''text'', JStr ''hello'')])"]
    by simp
  have r2: "embedding_response 3
        (body (fst (embed example_model
           (Inr (JObj [(''text'', JArr [JStr ''a'', JStr ''b'', JStr ''c''])])))))"
    using c example_model_embed_abc
      embedding_response_shape [where enc = example_model and s = "[]"
        and d = "[(''text'', JArr [JStr ''a'', JStr ''b'', JStr ''c''])]"
        and ts = "[JStr ''a'', JStr ''b'', JStr ''c'']"
        and req = "Inr (JObj [(''text'', JArr [JStr ''a'', JStr ''b'', JStr ''c''])])"]
    by (simp add: numeral_3_eq_3)
  have r3: "embedding_response 2
        (body (fst (embed_batch example_model
           (Inr (JObj [(''texts'', JArr [JStr ''a'', JStr ''b''])])))))"
    using c example_model_batch_ab
      embedding_response_shape [where enc = example_model and s = "[]"
        and d = "[(''texts'', JArr [JStr ''a'', JStr ''b''])]"
        and ts = "[JStr ''a'', JStr ''b'']"
        and req = "Inr (JObj [(''texts'', JArr [JStr ''a'', JStr ''b''])])"]
    by (simp add: numeral_2_eq_2)
  from c r1 r2 r3 example_model_embed_hello example_model_embed_abc example_model_batch_ab
  show ?thesis by blast
qed

text \<open>
  C2: every call of \<^verbatim>\<open>encode\<close> made by \<^verbatim>\<open>/embed/batch\<close> has \<open>normalize_embeddings\<close> true,
  and a request with a non-empty sequence of texts makes one such call. So two requests
  whose bodies differ only in a field \<open>normalize\<close> (an explicit \<^verbatim>\<open>false\<close> among them) get
  the same answer through the same call.
\<close>

theorem embed_batch_always_normalizes:
  "(\<forall>c \<in> set (snd (embed_batch enc req)). normalize_embeddings c = JBool True)
   \<and> (map_of d ''texts'' = Some (JArr (t # ts)) \<longrightarrow>
        (\<exists>c. snd (embed_batch enc (Inr (JObj d))) = [c] \<and> normalize_embeddings c = JBool True))
   \<and> ((\<forall>k. k \<noteq> ''normalize'' \<longrightarrow> map_of d1 k = map_of d2 k) \<longrightarrow>
        embed_batch enc (Inr (JObj d1)) = embed_batch enc (Inr (JObj d2)))"
proof -
  have a: "\<forall>c \<in> set (snd (embed_batch enc req)). normalize_embeddings c = JBool True"
  proof (cases req)
    case (Inl e)
    then show ?thesis by (simp add: embed_batch_raised)
  next
    case (Inr v)
    show ?thesis
    proof (cases "\<exists>d. v = JObj d")
      case False
      with Inr show ?thesis by (simp add: embed_batch_not_dict)
    next
      case True
      with Inr show ?thesis
        by (auto simp add: embed_batch_dict Let_def split: if_splits sum.splits)
    qed
  qed
  have b: "map_of d ''texts'' = Some (JArr (t # ts)) \<longrightarrow>
        (\<exists>c. snd (embed_batch enc (Inr (JObj d))) = [c] \<and> normalize_embeddings c = JBool True)"
    by (simp add: embed_batch_dict Let_def split: sum.splits)
  have c: "embed_batch enc (Inr (JObj d1)) = embed_batch enc (Inr (JObj d2))"
    if "\<forall>k. k \<noteq> ''normalize'' \<longrightarrow> map_of d1 k = map_of d2 k"
  proof -
    from that have "map_of d1 ''texts'' = map_of d2 ''texts''"
      and "map_of d1 ''batch_size'' = map_of d2 ''batch_size''"
      by simp_all
    then show ?thesis by (simp add: embed_batch_dict)
  qed
  from a b c show ?thesis by blast
qed

theorem embed_batch_always_normalizes_witness:
  "embed_batch example_model
        (Inr (JObj [(''texts'', JArr [JStr ''a'']), (''normalize'', JBool False)])) =
      embed_batch example_model (Inr (JObj [(''texts'', JArr [JStr ''a''])]))
   \<and> (\<exists>c. snd (embed_batch example_model
              (Inr (JObj [(''texts'', JArr [JStr ''a'']), (''normalize'', JBool False)]))) = [c]
          \<and> normalize_embeddings c = JBool True)"
proof -
  have h: "\<forall>k. k \<noteq> ''normalize'' \<longrightarrow>
      map_of [(''texts'', JArr [JStr ''a'']), (''normalize'', JBool False)] k =
      map_of [(''texts'', JArr [JStr ''a''])] k"
    by simp
  have t: "map_of [(''texts'', JArr [JStr ''a'']), (''normalize'', JBool False)] ''texts'' =
      Some (JArr [JStr ''a''])"
    by simp
  from h t embed_batch_always_normalizes [where enc = example_model
      and req = "Inr (JObj [(''texts'', JArr [JStr ''a'']), (''normalize'', JBool False)])"
      and d = "[(''texts'', JArr [JStr ''a'']), (''normalize'', JBool False)]"
      and t = "JStr ''a''" and ts = "[]"
      and ?d1.0 = "[(''texts'', JArr [JStr ''a'']), (''normalize'', JBool False)]"
      and ?d2.0 = "[(''texts'', JArr [JStr ''a''])]"]
  show ?thesis by blast
qed

text \<open>
  C3: when the body of \<^verbatim>\<open>POST /embed\<close> is an object without the field \<open>text\<close>, or with
  \<open>text\<close> the empty string or the empty sequence, the answer is 400 with the ErrorResponse
  ``Missing 'text' field'', and \<^verbatim>\<open>encode\<close> is not called.
\<close>

theorem embed_missing_text:
  assumes "map_of d ''text'' = None \<or> map_of d ''text'' = Some (JStr [])
           \<or> map_of d ''text'' = Some (JArr [])"
  shows "embed enc (Inr (JObj d)) =
           (\<lparr>status = 400, body = error_response ''Missing 'text' field''\<rparr>, [])"
  using assms by (auto simp add: embed_dict error_response_def)

theorem embed_missing_text_witness:
  "embed example_model (Inr (JObj [(''normalize'', JBool False)])) =
     (\<lparr>status = 400, body = error_response ''Missing 'text' field''\<rparr>, [])
   \<and> embed example_model (Inr (JObj [(''text'', JStr [])])) =
     (\<lparr>status = 400, body = error_response ''Missing 'text' field''\<rparr>, [])
   \<and> embed example_model (Inr (JObj [(''text'', JArr [])])) =
     (\<lparr>status = 400, body = error_response ''Missing 'text' field''\<rparr>, [])"
  using embed_missing_text [where d = "[(''normalize'', JBool False)]" and enc = example_model]
        embed_missing_text [where d = "[(''text'', JStr [])]" and enc = example_model]
        embed_missing_text [where d = "[(''text'', JArr [])]" and enc = example_model]
  by simp

text \<open>
  C4: on \<^verbatim>\<open>POST /embed\<close> with a non-empty \<open>text\<close>, a single string \<open>s\<close> is handed to
  \<^verbatim>\<open>encode\<close> as the one-element sequence \<open>[s]\<close>, and a sequence is handed on as it is. The
  call is the only one; it carries the request's \<open>normalize\<close> (true when absent) and no
  \<open>batch_size\<close>.
\<close>

theorem embed_normalizes_text:
  "(s \<noteq> [] \<and> map_of d ''text'' = Some (JStr s) \<longrightarrow>
      snd (embed enc (Inr (JObj d))) =
        [\<lparr>sentences = JArr [JStr s], batch_size = None,
          normalize_embeddings = (case map_of d ''normalize'' of None \<Rightarrow> JBool True | Some v \<Rightarrow> v),
          show_progress_bar = False\<rparr>])
   \<and> (xs \<noteq> [] \<and> map_of d ''text'' = Some (JArr xs) \<longrightarrow>
      snd (embed enc (Inr (JObj d))) =
        [\<lparr>sentences = JArr xs, batch_size = None,
          normalize_embeddings = (case map_of d ''normalize'' of None \<Rightarrow> JBool True | Some v \<Rightarrow> v),
          show_progress_bar = False\<rparr>])"
  by (simp add: embed_dict Let_def split: sum.splits)

theorem embed_normalizes_text_witness:
  "snd (embed example_model (Inr (JObj [(''text'', JStr ''hello'')]))) =
     [\<lparr>sentences = JArr [JStr ''hello''], batch_size = None,
       normalize_embeddings = JBool True, show_progress_bar = False\<rparr>]
   \<and> snd (embed example_model
            (Inr (JObj [(''text'', JArr [JStr ''a'', JStr ''b'']), (''normalize'', JBool False)]))) =
     [\<lparr>sentences = JArr [JStr ''a'', JStr ''b''], batch_size = None,
       normalize_embeddings = JBool False, show_progress_bar = False\<rparr>]"
  using embed_normalizes_text [where s = "''hello''" and d = "[(''text'', JStr ''hello'')]"
                                 and xs = "[]" and enc = example_model]
        embed_normalizes_text [where s = "[]"
                                 and d = "[(''text'', JArr [JStr ''a'', JStr ''b'']), (''normalize'', JBool False)]"
                                 and xs = "[JStr ''a'', JStr ''b'']" and enc = example_model]
  by simp

text \<open>
  C5: when the body of \<^verbatim>\<open>POST /embed/batch\<close> is an object whose \<open>texts\<close> is missing, is not
  a sequence, or is the empty sequence, the answer is 400 with an ErrorResponse, and
  \<^verbatim>\<open>encode\<close> is not called.
\<close>

theorem embed_batch_invalid_texts:
  assumes "map_of d ''texts'' = None
           \<or> (\<exists>v. map_of d ''texts'' = Some v \<and> \<not> isinstance_list v)
           \<or> map_of d ''texts'' = Some (JArr [])"
  shows "embed_batch enc (Inr (JObj d)) =
           (\<lparr>status = 400, body = error_response ''Missing or invalid 'texts' field''\<rparr>, [])"
  using assms by (auto simp add: embed_batch_dict error_response_def)

theorem embed_batch_invalid_texts_witness:
  "embed_batch example_model (Inr (JObj [(''batch_size'', JInt 8)])) =
     (\<lparr>status = 400, body = error_response ''Missing or invalid 'texts' field''\<rparr>, [])
   \<and> embed_batch example_model (Inr (JObj [(''texts'', JStr ''hello'')])) =
     (\<lparr>status = 400, body = error_response ''Missing or invalid 'texts' field''\<rparr>, [])
   \<and> embed_batch example_model (Inr (JObj [(''texts'', JArr [])])) =
     (\<lparr>status = 400, body = error_response ''Missing or invalid 'texts' field''\<rparr>, [])"
  using embed_batch_invalid_texts [where d = "[(''batch_size'', JInt 8)]" and enc = example_model]
        embed_batch_invalid_texts [where d = "[(''texts'', JStr ''hello'')]" and enc = example_model]
        embed_batch_invalid_texts [where d = "[(''texts'', JArr [])]" and enc = example_model]
  by simp

text \<open>
  C6: two \<^verbatim>\<open>POST /embed/batch\<close> requests whose bodies differ only in \<open>batch_size\<close> make
  the same calls of \<^verbatim>\<open>encode\<close> up to the \<open>batch_size\<close> argument, which is the one place the
  value goes. When the model takes the two sizes as a hint, giving the same under both, the
  two answers are identical: same embeddings in the same order, same count.
\<close>

theorem batch_size_is_only_a_hint:
  assumes "\<forall>k. k \<noteq> ''batch_size'' \<longrightarrow> map_of d1 k = map_of d2 k"
  shows "map (\<lambda>c. c\<lparr>batch_size := None\<rparr>) (snd (embed_batch enc (Inr (JObj d1)))) =
         map (\<lambda>c. c\<lparr>batch_size := None\<rparr>) (snd (embed_batch enc (Inr (JObj d2))))
         \<and> (batch_size_is_hint enc
               (case map_of d1 ''batch_size'' of None \<Rightarrow> JInt 32 | Some b \<Rightarrow> b)
               (case map_of d2 ''batch_size'' of None \<Rightarrow> JInt 32 | Some b \<Rightarrow> b) \<longrightarrow>
              fst (embed_batch enc (Inr (JObj d1))) = fst (embed_batch enc (Inr (JObj d2))))"
proof -
  from assms have t: "map_of d1 ''texts'' = map_of d2 ''texts''" by simp
  define texts where "texts = (case map_of d2 ''texts'' of None \<Rightarrow> JNull | Some v \<Rightarrow> v)"
  define b1 where "b1 = (case map_of d1 ''batch_size'' of None \<Rightarrow> JInt 32 | Some b \<Rightarrow> b)"
  define b2 where "b2 = (case map_of d2 ''batch_size'' of None \<Rightarrow> JInt 32 | Some b \<Rightarrow> b)"
  define call where "call b = \<lparr>sentences = texts, batch_size = b,
      normalize_embeddings = JBool True, show_progress_bar = False\<rparr>" for b
  have calls: "map (\<lambda>c. c\<lparr>batch_size := None\<rparr>) (snd (embed_batch enc (Inr (JObj d1)))) =
         map (\<lambda>c. c\<lparr>batch_size := None\<rparr>) (snd (embed_batch enc (Inr (JObj d2))))"
    by (simp add: embed_batch_dict t Let_def split: sum.splits)
  have resp: "fst (embed_batch enc (Inr (JObj d1))) = fst (embed_batch enc (Inr (JObj d2)))"
    if h: "batch_size_is_hint enc b1 b2"
  proof -
    have "call (Some b1) = (call None)\<lparr>batch_size := Some b1\<rparr>"
      and "call (Some b2) = (call None)\<lparr>batch_size := Some b2\<rparr>"
      by (simp_all add: call_def)
    with h have "enc (call (Some b1)) = enc (call (Some b2))"
      unfolding batch_size_is_hint_def by metis
    then show ?thesis
      by (simp add: embed_batch_dict t Let_def call_def texts_def b1_def b2_def
            split: sum.splits)
  qed
  from calls resp show ?thesis unfolding b1_def b2_def by blast
qed

theorem batch_size_is_only_a_hint_witness:
  "batch_size_is_hint strict_model (JInt 1) (JInt 32)
   \<and> fst (embed_batch strict_model
        (Inr (JObj [(''texts'', JArr [JStr ''a'', JStr ''b'']), (''batch_size'', JInt 1)]))) =
      fst (embed_batch strict_model
        (Inr (JObj [(''texts'', JArr [JStr ''a'', JStr ''b'']), (''batch_size'', JInt 32)])))
   \<and> status (fst (embed_batch strict_model
        (Inr (JObj [(''texts'', JArr [JStr ''a'', JStr ''b'']), (''batch_size'', JInt 1)])))) = 200"
proof -
  have h: "\<forall>k. k \<noteq> ''batch_size'' \<longrightarrow>
      map_of [(''texts'', JArr [JStr ''a'', JStr ''b'']), (''batch_size'', JInt 1)] k =
      map_of [(''texts'', JArr [JStr ''a'', JStr ''b'']), (''batch_size'', JInt 32)] k"
    by simp
  have s: "status (fst (embed_batch strict_model
        (Inr (JObj [(''texts'', JArr [JStr ''a'', JStr ''b'']), (''batch_size'', JInt 1)])))) = 200"
    by (simp add: embed_batch_dict strict_model_def example_model_def unit_vector_def)
  have b: "batch_size_is_hint strict_model (JInt 1) (JInt 32)"
    by (simp add: batch_size_is_hint_def strict_model_def example_model_def)
  from batch_size_is_only_a_hint [OF h, of strict_model] b
  have "fst (embed_batch strict_model
        (Inr (JObj [(''texts'', JArr [JStr ''a'', JStr ''b'']), (''batch_size'', JInt 1)]))) =
      fst (embed_batch strict_model
        (Inr (JObj [(''texts'', JArr [JStr ''a'', JStr ''b'']), (''batch_size'', JInt 32)])))"
    by simp
  with h s b show ?thesis by blast
qed

text \<open>
  C7: a request that passes validation (a true \<open>text\<close> on \<^verbatim>\<open>/embed\<close>, a non-empty sequence
  \<open>texts\<close> on \<^verbatim>\<open>/embed/batch\<close>) makes one call of \<^verbatim>\<open>encode\<close>; when that call raises, the
  answer is 500 with the ErrorResponse holding the text of the exception. No answer is
  partial: it is an ErrorResponse with status 400 or 500, or it is a 200 whose
  \<open>embeddings\<close> is the whole array the one call returned.
\<close>

theorem encode_failure_is_500:
  "(map_of d ''text'' = Some v \<and> truthy v \<longrightarrow>
      (\<exists>c. snd (embed enc (Inr (JObj d))) = [c] \<and>
         (\<forall>e. enc c = Inl e \<longrightarrow>
            fst (embed enc (Inr (JObj d))) = \<lparr>status = 500, body = error_response (str e)\<rparr>)))
   \<and> (map_of d ''texts'' = Some (JArr (t # ts)) \<longrightarrow>
      (\<exists>c. snd (embed_batch enc (Inr (JObj d))) = [c] \<and>
         (\<forall>e. enc c = Inl e \<longrightarrow>
            fst (embed_batch enc (Inr (JObj d))) =
              \<lparr>status = 500, body = error_response (str e)\<rparr>)))
   \<and> ((\<exists>msg. body (fst (embed enc req)) = error_response msg \<and>
          (status (fst (embed enc req)) = 400 \<or> status (fst (embed enc req)) = 500))
      \<or> (status (fst (embed enc req)) = 200 \<and>
          (\<exists>c a. snd (embed enc req) = [c] \<and> enc c = Inr a \<and>
                 field (body (fst (embed enc req))) ''embeddings'' = Some (tolist a))))
   \<and> ((\<exists>msg. body (fst (embed_batch enc req)) = error_response msg \<and>
          (status (fst (embed_batch enc req)) = 400 \<or> status (fst (embed_batch enc req)) = 500))
      \<or> (status (fst (embed_batch enc req)) = 200 \<and>
          (\<exists>c a. snd (embed_batch enc req) = [c] \<and> enc c = Inr a \<and>
                 field (body (fst (embed_batch enc req))) ''embeddings'' = Some (tolist a))))"
proof -
  have a: "map_of d ''text'' = Some v \<and> truthy v \<longrightarrow>
      (\<exists>c. snd (embed enc (Inr (JObj d))) = [c] \<and>
         (\<forall>e. enc c = Inl e \<longrightarrow>
            fst (embed enc (Inr (JObj d))) = \<lparr>status = 500, body = error_response (str e)\<rparr>))"
    by (auto simp add: embed_dict Let_def error_response_def split: sum.splits)
  have b: "map_of d ''texts'' = Some (JArr (t # ts)) \<longrightarrow>
      (\<exists>c. snd (embed_batch enc (Inr (JObj d))) = [c] \<and>
         (\<forall>e. enc c = Inl e \<longrightarrow>
            fst (embed_batch enc (Inr (JObj d))) =
              \<lparr>status = 500, body = error_response (str e)\<rparr>))"
    by (auto simp add: embed_batch_dict Let_def error_response_def split: sum.splits)
  from a b embed_all_or_nothing [of enc req] embed_batch_all_or_nothing [of enc req]
  show ?thesis by blast
qed

theorem encode_failure_is_500_witness:
  "fst (embed failing_model (Inr (JObj [(''text'', JStr ''hello'')]))) =
     \<lparr>status = 500, body = error_response ''out of memory''\<rparr>
   \<and> fst (embed_batch failing_model (Inr (JObj [(''texts'', JArr [JStr ''a'', JStr ''b''])]))) =
     \<lparr>status = 500, body = error_response ''out of memory''\<rparr>"
proof -
  have f: "failing_model c = Inl (Exn ''RuntimeError'' ''out of memory'')" for c
    by (simp add: failing_model_def)
  have t1: "map_of [(''text'', JStr ''hello'')] ''text'' = Some (JStr ''hello'')
            \<and> truthy (JStr ''hello'')"
    by simp
  have t2: "map_of [(''texts'', JArr [JStr ''a'', JStr ''b''])] ''texts'' =
            Some (JArr (JStr ''a'' # [JStr ''b'']))"
    by simp
  from t1 f
    encode_failure_is_500 [where enc = failing_model and d = "[(''text'', JStr ''hello'')]"
      and v = "JStr ''hello''" and t = JNull and ts = "[]" and req = "Inl (Exn [] [])"]
  have r1: "fst (embed failing_model (Inr (JObj [(''text'', JStr ''hello'')]))) =
     \<lparr>status = 500, body = error_response ''out of memory''\<rparr>"
    by (metis exn.sel(2))
  from t2 f
    encode_failure_is_500 [where enc = failing_model
      and d = "[(''texts'', JArr [JStr ''a'', JStr ''b''])]"
      and v = JNull and t = "JStr ''a''" and ts = "[JStr ''b'']" and req = "Inl (Exn [] [])"]
  have r2: "fst (embed_batch failing_model
               (Inr (JObj [(''texts'', JArr [JStr ''a'', JStr ''b''])]))) =
     \<lparr>status = 500, body = error_response ''out of memory''\<rparr>"
    by (metis exn.sel(2))
  from r1 r2 show ?thesis by blast
qed

text \<open>
  C8: whatever the request and the model, \<^verbatim>\<open>GET /health\<close> answers 200 with the fixed body
  \<^verbatim>\<open>{"status": "healthy", "model": "BGE-large-en-v1.5", "dimensions": 1024}\<close>; it has no other
  outcome and does not call the model.
\<close>

theorem health_fixed:
  "health enc req =
     (\<lparr>status = 200,
       body = JObj [(''status'', JStr ''healthy''), (''model'', JStr ''BGE-large-en-v1.5''),
                    (''dimensions'', JInt 1024)]\<rparr>, [])"
  by (simp add: health_def jsonify_def)

text \<open>
  C9: when \<^verbatim>\<open>request.json\<close> raises (no body, a body that is not JSON), or gives a value that
  is not an object (\<^verbatim>\<open>null\<close> among them), both POST handlers answer 500, not 400, with an
  ErrorResponse: the message of the exception raised, or that of the AttributeError of
  \<^verbatim>\<open>data.get\<close>. The model is not called.
\<close>

theorem malformed_body_is_500:
  "embed enc (Inl e) = (\<lparr>status = 500, body = error_response (str e)\<rparr>, [])
   \<and> embed_batch enc (Inl e) = (\<lparr>status = 500, body = error_response (str e)\<rparr>, [])
   \<and> ((\<forall>d. v \<noteq> JObj d) \<longrightarrow>
        embed enc (Inr v) =
          (\<lparr>status = 500,
            body = error_response
                     (quoted (type_name v) @ '' object has no attribute '' @ quoted ''get'')\<rparr>, [])
        \<and> embed_batch enc (Inr v) =
          (\<lparr>status = 500,
            body = error_response
                     (quoted (type_name v) @ '' object has no attribute '' @ quoted ''get'')\<rparr>, []))"
  by (simp add: embed_raised embed_batch_raised embed_not_dict embed_batch_not_dict
        error_response_def)

theorem malformed_body_is_500_witness:
  "embed example_model (Inr JNull) =
     (\<lparr>status = 500,
       body = error_response (quoted ''NoneType'' @ '' object has no attribute '' @ quoted ''get'')\<rparr>, [])
   \<and> embed_batch example_model (Inr (JArr [JStr ''a''])) =
     (\<lparr>status = 500,
       body = error_response (quoted ''list'' @ '' object has no attribute '' @ quoted ''get'')\<rparr>, [])"
  using malformed_body_is_500 [where enc = example_model and e = "Exn ''BadRequest'' ''400 Bad Request''"
                                 and v = JNull]
        malformed_body_is_500 [where enc = example_model and e = "Exn ''BadRequest'' ''400 Bad Request''"
                                 and v = "JArr [JStr ''a'']"]
  by simp

text \<open>
  C10: on \<^verbatim>\<open>POST /embed/batch\<close> with a non-empty sequence \<open>texts\<close>, the handler calls
  \<^verbatim>\<open>encode\<close> once with the \<open>batch_size\<close> of the body as it is, whatever its type or sign,
  and with 32 when the field is absent. The answer is never 400: it is 500 exactly when the
  call raises or returns an array without a length, and 200 exactly when it returns an
  array with one.
\<close>

theorem batch_size_unvalidated:
  assumes "map_of d ''texts'' = Some (JArr (t # ts))"
  shows "let call = \<lparr>sentences = JArr (t # ts),
                     batch_size = Some (case map_of d ''batch_size'' of
                                          None \<Rightarrow> JInt 32 | Some b \<Rightarrow> b),
                     normalize_embeddings = JBool True, show_progress_bar = False\<rparr>;
             r = fst (embed_batch enc (Inr (JObj d)))
         in snd (embed_batch enc (Inr (JObj d))) = [call]
            \<and> status r \<noteq> 400
            \<and> (status r = 500 \<longleftrightarrow>
                 (\<exists>e. enc call = Inl e) \<or> (\<exists>x. enc call = Inr (Scalar x)))
            \<and> (status r = 200 \<longleftrightarrow> (\<exists>rows. enc call = Inr (Arr rows)))"
proof -
  define call where "call = \<lparr>sentences = JArr (t # ts),
                     batch_size = Some (case map_of d ''batch_size'' of
                                          None \<Rightarrow> JInt 32 | Some b \<Rightarrow> b),
                     normalize_embeddings = JBool True, show_progress_bar = False\<rparr>"
  have "snd (embed_batch enc (Inr (JObj d))) = [call]
        \<and> status (fst (embed_batch enc (Inr (JObj d)))) \<noteq> 400
        \<and> (status (fst (embed_batch enc (Inr (JObj d)))) = 500 \<longleftrightarrow>
             (\<exists>e. enc call = Inl e) \<or> (\<exists>x. enc call = Inr (Scalar x)))
        \<and> (status (fst (embed_batch enc (Inr (JObj d)))) = 200 \<longleftrightarrow>
             (\<exists>rows. enc call = Inr (Arr rows)))"
  proof (cases "enc call")
    case (Inl e)
    with assms show ?thesis by (simp add: embed_batch_dict call_def)
  next
    case (Inr a)
    with assms show ?thesis by (cases a) (simp_all add: embed_batch_dict call_def)
  qed
  then show ?thesis by (simp add: Let_def call_def)
qed

theorem batch_size_unvalidated_witness:
  "fst (embed_batch strict_model
          (Inr (JObj [(''texts'', JArr [JStr ''a'']), (''batch_size'', JInt 0)]))) =
     \<lparr>status = 500, body = error_response ''batch_size must be positive''\<rparr>
   \<and> snd (embed_batch strict_model
          (Inr (JObj [(''texts'', JArr [JStr ''a'']), (''batch_size'', JStr ''big'')]))) =
     [\<lparr>sentences = JArr [JStr ''a''], batch_size = Some (JStr ''big''),
       normalize_embeddings = JBool True, show_progress_bar = False\<rparr>]
   \<and> status (fst (embed_batch strict_model
          (Inr (JObj [(''texts'', JArr [JStr ''a'']), (''batch_size'', JStr ''big'')])))) = 500
   \<and> snd (embed_batch strict_model (Inr (JObj [(''texts'', JArr [JStr ''a''])]))) =
     [\<lparr>sentences = JArr [JStr ''a''], batch_size = Some (JInt 32),
       normalize_embeddings = JBool True, show_progress_bar = False\<rparr>]
   \<and> status (fst (embed_batch strict_model (Inr (JObj [(''texts'', JArr [JStr ''a''])])))) = 200"
  using batch_size_unvalidated [where enc = strict_model and t = "JStr ''a''" and ts = "[]"
          and d = "[(''texts'', JArr [JStr ''a'']), (''batch_size'', JInt 0)]"]
        batch_size_unvalidated [where enc = strict_model and t = "JStr ''a''" and ts = "[]"
          and d = "[(''texts'', JArr [JStr ''a'']), (''batch_size'', JStr ''big'')]"]
        batch_size_unvalidated [where enc = strict_model and t = "JStr ''a''" and ts = "[]"
          and d = "[(''texts'', JArr [JStr ''a''])]"]
  by (simp add: Let_def strict_model_def example_model_def embed_batch_dict error_response_def)

end
